theory Spec2Isabelle
  imports Complex_Main "HOL-Library.Word"
begin

section \<open>Errors and nil values\<close>

text \<open>
  Every \<^verbatim>\<open>throw\<close> of the source is a value: a function that can throw returns
  \<open>error + 'a\<close>, with \<open>Inl\<close> the thrown error. \<open>Error m\<close> is the language's
  \<^verbatim>\<open>new Error(m)\<close> and \<open>TypeError\<close> what its operators throw on a value of the wrong
  kind; the others are the error classes of \<^verbatim>\<open>./error\<close> that the source throws, a start
  error wrapping the error it was given and the not-found error naming the path.
\<close>

datatype error =
    Error string
  | TypeError
  | TopologyValidationError
  | BinNotFoundError string
  | BinTimeoutError
  | BinStartError error
  | BinStartMacOSArmError error

definition bindE :: "error + 'a \<Rightarrow> ('a \<Rightarrow> error + 'b) \<Rightarrow> error + 'b" where
  "bindE r f = (case r of Inl e \<Rightarrow> Inl e | Inr v \<Rightarrow> f v)"

text \<open>
  Modelled from the spec: \<^verbatim>\<open>isNil\<close> and \<^verbatim>\<open>isNotNil\<close> of \<^verbatim>\<open>./util\<close> are not under src/.
  The spec speaks of absent and null values; both \<^verbatim>\<open>undefined\<close> and \<^verbatim>\<open>null\<close> are \<open>None\<close>
  here, as they are for the source's \<^verbatim>\<open>??\<close>.
\<close>

definition isNil :: "'a option \<Rightarrow> bool" where
  "isNil v = (v = None)"

definition isNotNil :: "'a option \<Rightarrow> bool" where
  "isNotNil v = (v \<noteq> None)"

text \<open>\<^verbatim>\<open>a ?? b\<close>\<close>

definition nullish :: "'a option \<Rightarrow> 'a \<Rightarrow> 'a" where
  "nullish v d = (case v of None \<Rightarrow> d | Some x \<Rightarrow> x)"

section \<open>Numbers\<close>

text \<open>
  A JavaScript \<^verbatim>\<open>number\<close> is an IEEE 754 double: a rational that fits 53 significant bits
  (exponent of the last bit between -1074 and 971), a negative zero, an infinity or NaN.
  \<open>Num 0\<close> is the positive zero. \<open>fl64\<close> rounds a rational to the nearest double, ties to
  the even significand, as every arithmetic operation of the language does with its exact
  result; a number \<open>Num q\<close> is a double when \<open>fl64 q = Num q\<close>.
\<close>

datatype number = Num rat | NegZero | PosInfinity | NegInfinity | NaN

definition pow2 :: "int \<Rightarrow> rat" where
  "pow2 k = (if 0 \<le> k then 2 ^ nat k else 1 / 2 ^ nat (- k))"

function floor_log2_int :: "int \<Rightarrow> int" where
  "floor_log2_int n = (if n < 2 then 0 else 1 + floor_log2_int (n div 2))"
  by pat_completeness auto
termination
  by (relation "measure nat") auto

declare floor_log2_int.simps [simp del]

definition ceil_log2_int :: "int \<Rightarrow> int" where
  "ceil_log2_int n = (if n \<le> 1 then 0 else 1 + floor_log2_int (n - 1))"

text \<open>For \<open>0 < a\<close>, the exponent \<open>k\<close> with \<open>2 ^ k \<le> a < 2 ^ (k + 1)\<close>.\<close>

definition floor_log2 :: "rat \<Rightarrow> int" where
  "floor_log2 a =
     (if 1 \<le> a then floor_log2_int \<lfloor>a\<rfloor> else - ceil_log2_int \<lceil>1 / a\<rceil>)"

definition round_half_even :: "rat \<Rightarrow> int" where
  "round_half_even x =
     (let f = \<lfloor>x\<rfloor>; d = x - of_int f
      in if d < 1 / 2 then f else if 1 / 2 < d then f + 1 else if even f then f else f + 1)"

definition signed_zero :: "bool \<Rightarrow> number" where
  "signed_zero neg = (if neg then NegZero else Num 0)"

definition signed_inf :: "bool \<Rightarrow> number" where
  "signed_inf neg = (if neg then NegInfinity else PosInfinity)"

definition fl64 :: "rat \<Rightarrow> number" where
  "fl64 q =
     (if q = 0 then Num 0
      else
        let a = \<bar>q\<bar>;
            e = max (floor_log2 a - 52) (- 1074);
            m = round_half_even (a / pow2 e);
            r = of_int m * pow2 e
        in if pow2 1024 \<le> r then signed_inf (q < 0)
           else if r = 0 then signed_zero (q < 0)
           else Num (if q < 0 then - r else r))"

definition is_neg :: "number \<Rightarrow> bool" where
  "is_neg x = (case x of Num q \<Rightarrow> q < 0 | NegZero \<Rightarrow> True | NegInfinity \<Rightarrow> True | _ \<Rightarrow> False)"

definition is_zero :: "number \<Rightarrow> bool" where
  "is_zero x = (x = Num 0 \<or> x = NegZero)"

definition is_inf :: "number \<Rightarrow> bool" where
  "is_inf x = (x = PosInfinity \<or> x = NegInfinity)"

definition val :: "number \<Rightarrow> rat" where
  "val x = (case x of Num q \<Rightarrow> q | _ \<Rightarrow> 0)"

text \<open>The operators \<^verbatim>\<open>*\<close> and \<^verbatim>\<open>/\<close> of the language on numbers.\<close>

definition js_mul :: "number \<Rightarrow> number \<Rightarrow> number" where
  "js_mul x y =
     (if x = NaN \<or> y = NaN then NaN
      else
        let s = (is_neg x \<noteq> is_neg y)
        in if is_inf x \<or> is_inf y then (if is_zero x \<or> is_zero y then NaN else signed_inf s)
           else if is_zero x \<or> is_zero y then signed_zero s
           else fl64 (val x * val y))"

definition js_div :: "number \<Rightarrow> number \<Rightarrow> number" where
  "js_div x y =
     (if x = NaN \<or> y = NaN then NaN
      else
        let s = (is_neg x \<noteq> is_neg y)
        in if is_inf x then (if is_inf y then NaN else signed_inf s)
           else if is_inf y then signed_zero s
           else if is_zero y then (if is_zero x then NaN else signed_inf s)
           else if is_zero x then signed_zero s
           else fl64 (val x / val y))"

section \<open>Identifier codec\<close>

type_synonym byte = "8 word"

text \<open>A principal wraps its bytes (\<^verbatim>\<open>Principal.toUint8Array\<close>, \<^verbatim>\<open>Principal.fromUint8Array\<close>).\<close>

datatype Principal = fromUint8Array (toUint8Array: "byte list")

text \<open>
  Modelled from the spec: the alphabet of the base64 text encoding that the codec of
  \<^verbatim>\<open>./util\<close> (not under src/) writes and reads; \<open>b64char\<close> is the character of a
  six-bit value, \<open>b64index\<close> the six-bit value of a character of the alphabet.
\<close>

definition b64chars :: string where
  "b64chars = ''ABCDEFGHIJKLMNOPQRSTUVWXYZabcdefghijklmnopqrstuvwxyz0123456789+/''"

definition b64char :: "nat \<Rightarrow> char" where
  "b64char i = b64chars ! i"

fun index_of :: "'a \<Rightarrow> 'a list \<Rightarrow> nat option" where
  "index_of x [] = None"
| "index_of x (y # ys) = (if x = y then Some 0 else map_option Suc (index_of x ys))"

definition b64index :: "char \<Rightarrow> nat option" where
  "b64index c = index_of c b64chars"

text \<open>
  Modelled from the spec: \<^verbatim>\<open>base64Encode\<close> of \<^verbatim>\<open>./util\<close> is not under src/. The spec
  calls it the generic base64 codec of the wire's text encoding (\<^verbatim>\<open>encodeBlob\<close>): three
  bytes become four characters of the base64 alphabet, a last group of one or two bytes
  is padded with \<^verbatim>\<open>=\<close>.
\<close>

fun base64Encode :: "byte list \<Rightarrow> string" where
  "base64Encode [] = []"
| "base64Encode [a] =
     (let x = unat a
      in [b64char (x div 4), b64char ((x mod 4) * 16), CHR ''='', CHR ''=''])"
| "base64Encode [a, b] =
     (let x = unat a; y = unat b
      in [b64char (x div 4), b64char ((x mod 4) * 16 + y div 16),
          b64char ((y mod 16) * 4), CHR ''=''])"
| "base64Encode (a # b # c # rest) =
     (let x = unat a; y = unat b; z = unat c
      in b64char (x div 4) # b64char ((x mod 4) * 16 + y div 16) #
         b64char ((y mod 16) * 4 + z div 64) # b64char (z mod 64) #
         base64Encode rest)"

text \<open>
  Modelled from the spec: \<^verbatim>\<open>base64Decode\<close> of \<^verbatim>\<open>./util\<close> is not under src/. The spec
  calls it the generic base64 codec for opaque payloads (\<^verbatim>\<open>decodeBlob\<close>), the inverse of
  the encoder, and states no rejection for it: it returns bytes for every text. It reads
  as the platform's base64 reader does. A character of the alphabet gives its six bits,
  \<^verbatim>\<open>-\<close> and \<^verbatim>\<open>_\<close> stand for \<^verbatim>\<open>+\<close> and \<^verbatim>\<open>/\<close>, any other character is skipped, and the
  first \<^verbatim>\<open>=\<close> ends the text (\<open>sextets\<close>); every eight bits read give a byte, and bits
  left over at the end are dropped (\<open>pack\<close>).
\<close>

definition unbase64 :: "char \<Rightarrow> nat option" where
  "unbase64 c =
     (if c = CHR ''-'' then Some 62 else if c = CHR ''_'' then Some 63 else b64index c)"

fun sextets :: "string \<Rightarrow> nat list" where
  "sextets [] = []"
| "sextets (c # cs) =
     (if c = CHR ''='' then []
      else case unbase64 c of Some v \<Rightarrow> v # sextets cs | None \<Rightarrow> sextets cs)"

fun pack :: "nat list \<Rightarrow> byte list" where
  "pack (s0 # s1 # s2 # s3 # rest) =
     of_nat (s0 * 4 + s1 div 16) # of_nat ((s1 mod 16) * 16 + s2 div 4) #
     of_nat ((s2 mod 4) * 64 + s3) # pack rest"
| "pack [s0, s1, s2] = [of_nat (s0 * 4 + s1 div 16), of_nat ((s1 mod 16) * 16 + s2 div 4)]"
| "pack [s0, s1] = [of_nat (s0 * 4 + s1 div 16)]"
| "pack [s0] = []"
| "pack [] = []"

definition base64Decode :: "string \<Rightarrow> byte list" where
  "base64Decode s = pack (sextets s)"

text \<open>
  Modelled from the spec: \<^verbatim>\<open>base64EncodePrincipal\<close> and \<^verbatim>\<open>base64DecodePrincipal\<close> of
  \<^verbatim>\<open>./util\<close> are not under src/. They are the spec's \<^verbatim>\<open>encodeId\<close> and \<^verbatim>\<open>decodeId\<close>: the
  base64 text of an identifier's bytes, and the principal of the bytes that a text
  decodes to.
\<close>

definition base64EncodePrincipal :: "Principal \<Rightarrow> string" where
  "base64EncodePrincipal p = base64Encode (toUint8Array p)"

definition base64DecodePrincipal :: "string \<Rightarrow> Principal" where
  "base64DecodePrincipal s = fromUint8Array (base64Decode s)"

section \<open>CreateInstance\<close>

text \<open>
  \<^verbatim>\<open>SubnetStateType\<close> has the two tags \<^verbatim>\<open>'new'\<close> and \<^verbatim>\<open>'fromPath'\<close>. The switch of
  \<^verbatim>\<open>encodeSubnetConfig\<close> has a default arm for a state object whose tag is neither;
  \<open>OtherSubnetStateConfig\<close> carries such a tag.
\<close>

datatype SubnetStateConfig =
    NewSubnetStateConfig
  | FromPathSubnetStateConfig string Principal
  | OtherSubnetStateConfig string

record SubnetConfig =
  enableDeterministicTimeSlicing :: "bool option"
  enableBenchmarkingInstructionLimits :: "bool option"
  state :: SubnetStateConfig

text \<open>
  An optional field is an \<open>option\<close>. The elements of the three lists are options too:
  \<^verbatim>\<open>encodeManySubnetConfigs\<close> filters the nil results of its map.
\<close>

record CreateInstanceRequest =
  nns :: "SubnetConfig option"
  sns :: "SubnetConfig option"
  ii :: "SubnetConfig option"
  fiduciary :: "SubnetConfig option"
  bitcoin :: "SubnetConfig option"
  system :: "SubnetConfig option list option"
  application :: "SubnetConfig option list option"
  verifiedApplication :: "SubnetConfig option list option"
  processingTimeoutMs :: "number option"
  nonmainnetFeatures :: "bool option"

datatype EncodedDtsFlag = Enabled | Disabled

datatype EncodedInstructionConfig = Production | Benchmarking

datatype EncodedStateConfig = New | FromPath string string

record EncodedSubnetConfig =
  dts_flag :: EncodedDtsFlag
  instruction_config :: EncodedInstructionConfig
  state_config :: EncodedStateConfig

record EncodedCreateInstanceSubnetConfig =
  enc_nns :: "EncodedSubnetConfig option"
  enc_sns :: "EncodedSubnetConfig option"
  enc_ii :: "EncodedSubnetConfig option"
  enc_fiduciary :: "EncodedSubnetConfig option"
  enc_bitcoin :: "EncodedSubnetConfig option"
  enc_system :: "EncodedSubnetConfig list"
  enc_application :: "EncodedSubnetConfig list"
  enc_verified_application :: "EncodedSubnetConfig list"

record EncodedCreateInstanceRequest =
  subnet_config_set :: EncodedCreateInstanceSubnetConfig
  nonmainnet_features :: bool

definition encodeDtsFlag :: "bool option \<Rightarrow> EncodedDtsFlag" where
  "encodeDtsFlag flag = (if flag = Some False then Disabled else Enabled)"

definition encodeInstructionConfig :: "bool option \<Rightarrow> EncodedInstructionConfig" where
  "encodeInstructionConfig flag = (if flag = Some True then Benchmarking else Production)"

text \<open>The template literal of the default arm prints the state object: \<^verbatim>\<open>[object Object]\<close>.\<close>

definition encodeSubnetConfig :: "SubnetConfig option \<Rightarrow> error + EncodedSubnetConfig option" where
  "encodeSubnetConfig config =
     (if isNil config then Inr None
      else let c = the config in
        (case state c of
           NewSubnetStateConfig \<Rightarrow>
             Inr (Some \<lparr>dts_flag = encodeDtsFlag (enableDeterministicTimeSlicing c),
                        instruction_config =
                          encodeInstructionConfig (enableBenchmarkingInstructionLimits c),
                        state_config = New\<rparr>)
         | FromPathSubnetStateConfig path subnetId \<Rightarrow>
             Inr (Some \<lparr>dts_flag = encodeDtsFlag (enableDeterministicTimeSlicing c),
                        instruction_config =
                          encodeInstructionConfig (enableBenchmarkingInstructionLimits c),
                        state_config = FromPath path (base64EncodePrincipal subnetId)\<rparr>)
         | OtherSubnetStateConfig t \<Rightarrow>
             Inl (Error ''Unknown subnet state type: [object Object]'')))"

text \<open>\<^verbatim>\<open>configs.map(f)\<close> where \<open>f\<close> can throw: the first throw ends the map.\<close>

fun mapE :: "('a \<Rightarrow> error + 'b) \<Rightarrow> 'a list \<Rightarrow> error + 'b list" where
  "mapE f [] = Inr []"
| "mapE f (x # xs) = bindE (f x) (\<lambda>y. bindE (mapE f xs) (\<lambda>ys. Inr (y # ys)))"

text \<open>\<^verbatim>\<open>.filter(isNotNil)\<close>, with the type narrowed to the values that are left.\<close>

definition filterNotNil :: "'a option list \<Rightarrow> 'a list" where
  "filterNotNil xs = map the (filter isNotNil xs)"

definition encodeManySubnetConfigs ::
  "SubnetConfig option list option \<Rightarrow> error + EncodedSubnetConfig list" where
  "encodeManySubnetConfigs configs =
     bindE (mapE encodeSubnetConfig (nullish configs [])) (\<lambda>ys. Inr (filterNotNil ys))"

definition defaultApplicationSubnet :: SubnetConfig where
  "defaultApplicationSubnet =
     \<lparr>enableDeterministicTimeSlicing = None, enableBenchmarkingInstructionLimits = None,
      state = NewSubnetStateConfig\<rparr>"

text \<open>\<^verbatim>\<open>{ application: [defaultApplicationSubnet] }\<close>: every other field is absent.\<close>

definition defaultCreateInstanceRequest :: CreateInstanceRequest where
  "defaultCreateInstanceRequest =
     \<lparr>nns = None, sns = None, ii = None, fiduciary = None, bitcoin = None, system = None,
      application = Some [Some defaultApplicationSubnet], verifiedApplication = None,
      processingTimeoutMs = None, nonmainnetFeatures = None\<rparr>"

definition encodeCreateInstanceRequest ::
  "CreateInstanceRequest option \<Rightarrow> error + EncodedCreateInstanceRequest" where
  "encodeCreateInstanceRequest req =
     (let defaultOptions = nullish req defaultCreateInstanceRequest in
      bindE (encodeSubnetConfig (nns defaultOptions)) (\<lambda>e_nns.
      bindE (encodeSubnetConfig (sns defaultOptions)) (\<lambda>e_sns.
      bindE (encodeSubnetConfig (ii defaultOptions)) (\<lambda>e_ii.
      bindE (encodeSubnetConfig (fiduciary defaultOptions)) (\<lambda>e_fiduciary.
      bindE (encodeSubnetConfig (bitcoin defaultOptions)) (\<lambda>e_bitcoin.
      bindE (encodeManySubnetConfigs (system defaultOptions)) (\<lambda>e_system.
      bindE (encodeManySubnetConfigs
               (Some (nullish (application defaultOptions) [Some defaultApplicationSubnet])))
        (\<lambda>e_application.
      bindE (encodeManySubnetConfigs (verifiedApplication defaultOptions))
        (\<lambda>e_verified_application.
      let options =
        \<lparr>subnet_config_set =
           \<lparr>enc_nns = e_nns, enc_sns = e_sns, enc_ii = e_ii, enc_fiduciary = e_fiduciary,
            enc_bitcoin = e_bitcoin, enc_system = e_system,
            enc_application = e_application,
            enc_verified_application = e_verified_application\<rparr>,
         nonmainnet_features = nullish (nonmainnetFeatures defaultOptions) False\<rparr>
      in
        if (isNil (enc_nns (subnet_config_set options)) \<and>
            isNil (enc_sns (subnet_config_set options)) \<and>
            isNil (enc_ii (subnet_config_set options)) \<and>
            isNil (enc_fiduciary (subnet_config_set options)) \<and>
            isNil (enc_bitcoin (subnet_config_set options)) \<and>
            length (enc_system (subnet_config_set options)) = 0 \<and>
            length (enc_application (subnet_config_set options)) = 0) \<or>
           int (length (enc_system (subnet_config_set options))) < 0 \<or>
           int (length (enc_application (subnet_config_set options))) < 0
        then Inl TopologyValidationError
        else Inr options)))))))))"

text \<open>The request \<^verbatim>\<open>{}\<close>: an object that is present and names no subnet in any role.\<close>

definition emptyRequest :: CreateInstanceRequest where
  "emptyRequest =
     \<lparr>nns = None, sns = None, ii = None, fiduciary = None, bitcoin = None, system = None,
      application = None, verifiedApplication = None, processingTimeoutMs = None,
      nonmainnetFeatures = None\<rparr>"

text \<open>The encoding of \<open>defaultApplicationSubnet\<close>.\<close>

definition encodedDefaultSubnet :: EncodedSubnetConfig where
  "encodedDefaultSubnet =
     \<lparr>dts_flag = Enabled, instruction_config = Production, state_config = New\<rparr>"


section \<open>GetTopology\<close>

datatype SubnetType = Application | Bitcoin | Fiduciary | InternetIdentity | NNS | SNS | System

text \<open>
  The wire token is a string; the switch compares it with the seven literals and its
  default arm throws.
\<close>

definition decodeSubnetKind :: "string \<Rightarrow> error + SubnetType" where
  "decodeSubnetKind kind =
     (if kind = ''Application'' then Inr Application
      else if kind = ''Bitcoin'' then Inr Bitcoin
      else if kind = ''Fiduciary'' then Inr Fiduciary
      else if kind = ''II'' then Inr InternetIdentity
      else if kind = ''NNS'' then Inr NNS
      else if kind = ''SNS'' then Inr SNS
      else if kind = ''System'' then Inr System
      else Inl (Error (''Unknown subnet kind: '' @ kind)))"

section \<open>GetTime and SetTime\<close>

text \<open>
  The four interfaces are two shapes: \<^verbatim>\<open>{ millisSinceEpoch: number }\<close> for
  \<^verbatim>\<open>GetTimeResponse\<close> and \<^verbatim>\<open>SetTimeRequest\<close>, \<^verbatim>\<open>{ nanos_since_epoch: number }\<close> for the
  two encoded ones. The language types them by structure.
\<close>

record GetTimeResponse =
  millisSinceEpoch :: number

type_synonym SetTimeRequest = GetTimeResponse

record EncodedGetTimeResponse =
  nanos_since_epoch :: number

type_synonym EncodedSetTimeRequest = EncodedGetTimeResponse

definition decodeGetTimeResponse :: "EncodedGetTimeResponse \<Rightarrow> GetTimeResponse" where
  "decodeGetTimeResponse res =
     \<lparr>millisSinceEpoch = js_div (nanos_since_epoch res) (Num 1000000)\<rparr>"

definition encodeSetTimeRequest :: "SetTimeRequest \<Rightarrow> EncodedSetTimeRequest" where
  "encodeSetTimeRequest req =
     \<lparr>nanos_since_epoch = js_mul (millisSinceEpoch req) (Num 1000000)\<rparr>"

section \<open>GetCanisterSubnetId\<close>

record GetSubnetIdResponse =
  subnetId :: "Principal option"

text \<open>\<^verbatim>\<open>{ subnet_id: string } | {}\<close>; the argument itself can be nil.\<close>

datatype EncodedGetSubnetIdResponse = WithSubnetId string | EmptyObject

text \<open>
  \<^verbatim>\<open>'subnet_id' in res\<close>: the operator throws a \<^verbatim>\<open>TypeError\<close> when its right operand is
  no object, as a nil value is.
\<close>

definition in_subnet_id :: "EncodedGetSubnetIdResponse option \<Rightarrow> error + bool" where
  "in_subnet_id res =
     (case res of
        None \<Rightarrow> Inl TypeError
      | Some (WithSubnetId s) \<Rightarrow> Inr True
      | Some EmptyObject \<Rightarrow> Inr False)"

text \<open>\<^verbatim>\<open>res.subnet_id\<close>, read where the key is there.\<close>

definition subnet_id :: "EncodedGetSubnetIdResponse \<Rightarrow> string" where
  "subnet_id res = (case res of WithSubnetId s \<Rightarrow> s | EmptyObject \<Rightarrow> [])"

definition decodeGetSubnetIdResponse ::
  "EncodedGetSubnetIdResponse option \<Rightarrow> error + GetSubnetIdResponse" where
  "decodeGetSubnetIdResponse res =
     (if isNil res then Inr \<lparr>subnetId = None\<rparr>
      else
        bindE (in_subnet_id res) (\<lambda>present.
          if present
          then Inr \<lparr>subnetId = Some (base64DecodePrincipal (subnet_id (the res)))\<rparr>
          else Inr \<lparr>subnetId = None\<rparr>))"

section \<open>GetPendingHttpsOutcalls\<close>

datatype CanisterHttpMethod = GET | POST | HEAD

definition decodeCanisterHttpMethod :: "string \<Rightarrow> error + CanisterHttpMethod" where
  "decodeCanisterHttpMethod method =
     (if method = ''GET'' then Inr GET
      else if method = ''POST'' then Inr POST
      else if method = ''HEAD'' then Inr HEAD
      else Inl (Error (''Unknown canister HTTP method: '' @ method)))"

section \<open>MockPendingHttpsOutcall\<close>

type_synonym CanisterHttpHeader = "string \<times> string"

text \<open>
  A mock is an object with a \<^verbatim>\<open>type\<close> tag; the record carries the fields of both
  declared variants, and each arm of the switch reads those of its own.
\<close>

record HttpsOutcallResponseMock =
  type :: string
  statusCode :: number
  headers :: "CanisterHttpHeader list"
  body :: "byte list"
  message :: string

record EncodedCanisterHttpHeader =
  header_name :: string
  header_value :: string

datatype EncodedHttpsOutcallResponseMock =
    CanisterHttpReply number "EncodedCanisterHttpHeader list" string
  | CanisterHttpReject number string

definition encodeHttpHeader :: "CanisterHttpHeader \<Rightarrow> EncodedCanisterHttpHeader" where
  "encodeHttpHeader header = \<lparr>header_name = fst header, header_value = snd header\<rparr>"

text \<open>The template literal of the default arm prints the object: \<^verbatim>\<open>[object Object]\<close>.\<close>

definition encodeHttpsOutcallResponse ::
  "HttpsOutcallResponseMock \<Rightarrow> error + EncodedHttpsOutcallResponseMock" where
  "encodeHttpsOutcallResponse res =
     (if type res = ''success'' then
        Inr (CanisterHttpReply (statusCode res) (map encodeHttpHeader (headers res))
               (base64Encode (body res)))
      else if type res = ''reject'' then
        Inr (CanisterHttpReject (statusCode res) (message res))
      else Inl (Error ''Unknown response type: [object Object]''))"

section \<open>CanisterCall\<close>

datatype EffectivePrincipal = EffectiveSubnetId Principal | EffectiveCanisterId Principal

text \<open>\<open>EncodedNone\<close> is the string \<^verbatim>\<open>'None'\<close>.\<close>

datatype EncodedEffectivePrincipal = SubnetId string | CanisterId string | EncodedNone

definition encodeEffectivePrincipal ::
  "EffectivePrincipal option \<Rightarrow> EncodedEffectivePrincipal" where
  "encodeEffectivePrincipal effectivePrincipal =
     (if isNil effectivePrincipal then EncodedNone
      else case the effectivePrincipal of
        EffectiveSubnetId p \<Rightarrow> SubnetId (base64EncodePrincipal p)
      | EffectiveCanisterId p \<Rightarrow> CanisterId (base64EncodePrincipal p))"

definition decodeEffectivePrincipal ::
  "EncodedEffectivePrincipal \<Rightarrow> EffectivePrincipal option" where
  "decodeEffectivePrincipal effectivePrincipal =
     (case effectivePrincipal of
        EncodedNone \<Rightarrow> None
      | SubnetId s \<Rightarrow> Some (EffectiveSubnetId (base64DecodePrincipal s))
      | CanisterId s \<Rightarrow> Some (EffectiveCanisterId (base64DecodePrincipal s)))"

record CanisterCallResponse =
  body :: "byte list"

record EncodedCanisterError =
  code :: string
  description :: string

datatype EncodedCanisterCallOk = Reply string | Reject string

datatype EncodedCanisterCallResponse = Ok EncodedCanisterCallOk | Err EncodedCanisterError

definition decodeCanisterCallResponse ::
  "EncodedCanisterCallResponse \<Rightarrow> error + CanisterCallResponse" where
  "decodeCanisterCallResponse res =
     (case res of
        Err e \<Rightarrow> Inl (Error (description e))
      | Ok (Reject m) \<Rightarrow> Inl (Error m)
      | Ok (Reply b) \<Rightarrow> Inr \<lparr>body = base64Decode b\<rparr>)"

section \<open>The server process\<close>

text \<open>
  \<^verbatim>\<open>PocketIcServer\<close> holds a child process. What the class does with it are effects on
  the platform's objects: the listeners registered on the process, and the promises the
  methods return. A listener is one of the three closures the source registers: the
  error listener of \<^verbatim>\<open>start\<close>, which throws, and the exit and error listeners of a call
  of \<^verbatim>\<open>stop\<close>, which resolve and reject the promise of that call (a promise is named by
  its index in the list of promises).
\<close>

datatype listener = StartErrorListener | StopExitListener nat | StopErrorListener nat

datatype promise = Pending | Resolved | Rejected error

datatype kill_result = SignalSent | SignalFailed error

record ChildProcess =
  exited :: bool
  killed :: bool
  exitListeners :: "listener list"
  errorListeners :: "listener list"

record runtime =
  serverProcess :: ChildProcess
  promises :: "promise list"
  uncaught :: "error list"
  armDarwin :: bool

text \<open>Settling a promise that is settled already does nothing.\<close>

definition resolve :: "nat \<Rightarrow> runtime \<Rightarrow> runtime" where
  "resolve p rt =
     (if p < length (promises rt) \<and> promises rt ! p = Pending
      then rt\<lparr>promises := (promises rt)[p := Resolved]\<rparr> else rt)"

definition reject :: "nat \<Rightarrow> error \<Rightarrow> runtime \<Rightarrow> runtime" where
  "reject p e rt =
     (if p < length (promises rt) \<and> promises rt ! p = Pending
      then rt\<lparr>promises := (promises rt)[p := Rejected e]\<rparr> else rt)"

text \<open>
  The body of each closure. The listener of \<^verbatim>\<open>start\<close> throws \<^verbatim>\<open>BinStartMacOSArmError\<close>
  when \<^verbatim>\<open>isArm() && isDarwin()\<close> and \<^verbatim>\<open>BinStartError\<close> otherwise.
\<close>

definition invoke :: "listener \<Rightarrow> error \<Rightarrow> runtime \<Rightarrow> runtime \<times> error option" where
  "invoke l payload rt =
     (case l of
        StartErrorListener \<Rightarrow>
          (rt, Some (if armDarwin rt then BinStartMacOSArmError payload
                     else BinStartError payload))
      | StopExitListener p \<Rightarrow> (resolve p rt, None)
      | StopErrorListener p \<Rightarrow> (reject p payload rt, None))"

text \<open>
  The platform's \<^verbatim>\<open>emit\<close>: the listeners of the event are called in the order they were
  registered, and a listener that throws ends the dispatch with its exception.
\<close>

fun emit :: "listener list \<Rightarrow> error \<Rightarrow> runtime \<Rightarrow> runtime \<times> error option" where
  "emit [] payload rt = (rt, None)"
| "emit (l # ls) payload rt =
     (case invoke l payload rt of
        (rt', Some thrown) \<Rightarrow> (rt', Some thrown)
      | (rt', None) \<Rightarrow> emit ls payload rt')"

definition on_exit :: "listener \<Rightarrow> runtime \<Rightarrow> runtime" where
  "on_exit l rt =
     rt\<lparr>serverProcess := (serverProcess rt)
           \<lparr>exitListeners := exitListeners (serverProcess rt) @ [l]\<rparr>\<rparr>"

definition on_error :: "listener \<Rightarrow> runtime \<Rightarrow> runtime" where
  "on_error l rt =
     rt\<lparr>serverProcess := (serverProcess rt)
           \<lparr>errorListeners := errorListeners (serverProcess rt) @ [l]\<rparr>\<rparr>"

text \<open>
  The platform's \<^verbatim>\<open>kill\<close>: on a process that has exited it does nothing; otherwise it
  sends the signal, and a signal that cannot be delivered is reported by an \<^verbatim>\<open>error\<close>
  event emitted during the call.
\<close>

definition kill :: "kill_result \<Rightarrow> runtime \<Rightarrow> runtime \<times> error option" where
  "kill r rt =
     (if exited (serverProcess rt) then (rt, None)
      else case r of
        SignalSent \<Rightarrow> (rt\<lparr>serverProcess := (serverProcess rt)\<lparr>killed := True\<rparr>\<rparr>, None)
      | SignalFailed e \<Rightarrow> emit (errorListeners (serverProcess rt)) e rt)"

definition newPromise :: "runtime \<Rightarrow> nat \<times> runtime" where
  "newPromise rt = (length (promises rt), rt\<lparr>promises := promises rt @ [Pending]\<rparr>)"

text \<open>
  \<^verbatim>\<open>stop\<close>: the executor of the new promise registers the two listeners and calls
  \<^verbatim>\<open>kill\<close>; an exception that leaves the executor rejects the promise.
\<close>

definition stop :: "kill_result \<Rightarrow> runtime \<Rightarrow> nat \<times> runtime" where
  "stop r rt =
     (let (p, rt1) = newPromise rt;
          rt2 = on_exit (StopExitListener p) rt1;
          rt3 = on_error (StopErrorListener p) rt2;
          (rt4, thrown) = kill r rt3
      in case thrown of None \<Rightarrow> (p, rt4) | Some e \<Rightarrow> (p, reject p e rt4))"

text \<open>
  What can happen to a started server: a call of \<^verbatim>\<open>stop\<close>, and the two events of the
  process. The process exits once, and \<^verbatim>\<open>exit\<close> is emitted then; after that it emits
  nothing. An exception that leaves a dispatch started by the platform is uncaught.
\<close>

datatype event = CallStop kill_result | ProcessExit | ProcessError error

definition dispatch :: "runtime \<times> error option \<Rightarrow> runtime" where
  "dispatch r =
     (case r of
        (rt, None) \<Rightarrow> rt
      | (rt, Some e) \<Rightarrow> rt\<lparr>uncaught := uncaught rt @ [e]\<rparr>)"

definition step :: "runtime \<Rightarrow> event \<Rightarrow> runtime" where
  "step rt ev =
     (case ev of
        CallStop r \<Rightarrow> snd (stop r rt)
      | ProcessExit \<Rightarrow>
          if exited (serverProcess rt) then rt
          else
            let rt' = rt\<lparr>serverProcess := (serverProcess rt)\<lparr>exited := True\<rparr>\<rparr>
            in dispatch (emit (exitListeners (serverProcess rt')) (Error ''exit'') rt')
      | ProcessError e \<Rightarrow>
          if exited (serverProcess rt) then rt
          else dispatch (emit (errorListeners (serverProcess rt)) e rt))"

definition run :: "runtime \<Rightarrow> event list \<Rightarrow> runtime" where
  "run rt evs = foldl step rt evs"

text \<open>
  The server that \<^verbatim>\<open>start\<close> returns: the process runs, and the error listener of
  \<^verbatim>\<open>start\<close> is registered on it.
\<close>

definition started :: "bool \<Rightarrow> runtime" where
  "started arm =
     \<lparr>serverProcess = \<lparr>exited = False, killed = False, exitListeners = [],
                        errorListeners = [StartErrorListener]\<rparr>,
      promises = [], uncaught = [], armDarwin = arm\<rparr>"




section \<open>Starting the server\<close>

subsection \<open>Reading and printing a number\<close>

text \<open>
  A text is a list of characters of the Latin-1 range. \<^verbatim>\<open>parseInt\<close> with no radix: leading
  white space is skipped, a sign is read, \<^verbatim>\<open>0x\<close> or \<^verbatim>\<open>0X\<close> selects radix 16, and the longest
  run of digits of the radix is the integer; what follows it is ignored. With no digit the
  result is NaN. The integer is rounded to a number, and a zero takes the sign.
\<close>

definition isWhiteSpace :: "char \<Rightarrow> bool" where
  "isWhiteSpace c \<longleftrightarrow>
     c \<in> {CHR 0x09, CHR 0x0A, CHR 0x0B, CHR 0x0C, CHR 0x0D, CHR 0x20, CHR 0xA0}"

definition digitValue :: "char \<Rightarrow> int option" where
  "digitValue c =
     (let n = (of_char c :: int)
      in if 48 \<le> n \<and> n \<le> 57 then Some (n - 48)
         else if 97 \<le> n \<and> n \<le> 122 then Some (n - 87)
         else if 65 \<le> n \<and> n \<le> 90 then Some (n - 55)
         else None)"

definition radixDigit :: "int \<Rightarrow> char \<Rightarrow> int option" where
  "radixDigit R c =
     (case digitValue c of
        Some v \<Rightarrow> if v < R then Some v else None
      | None \<Rightarrow> None)"

definition parseInt :: "string \<Rightarrow> number" where
  "parseInt string =
     (let S = dropWhile isWhiteSpace string;
          negative = (S \<noteq> [] \<and> hd S = CHR ''-'');
          S1 = (if S \<noteq> [] \<and> (hd S = CHR ''+'' \<or> hd S = CHR ''-'') then tl S else S);
          hex = (take 2 S1 = ''0x'' \<or> take 2 S1 = ''0X'');
          R = (if hex then 16 else 10);
          S2 = (if hex then drop 2 S1 else S1);
          Z = takeWhile (\<lambda>c. radixDigit R c \<noteq> None) S2
      in if Z = [] then NaN
         else
           let mathInt = foldl (\<lambda>a c. a * R + the (radixDigit R c)) 0 Z
           in if mathInt = 0 then signed_zero negative
              else fl64 (of_int (if negative then - mathInt else mathInt)))"

definition isNaN :: "number \<Rightarrow> bool" where
  "isNaN x = (x = NaN)"

text \<open>
  The decimal digits of a natural number, and the power of ten below a positive rational:
  \<open>floor_log10 a\<close> is the \<open>e\<close> with \<open>10 ^ e \<le> a < 10 ^ (e + 1)\<close>.
\<close>

definition digitChar :: "int \<Rightarrow> char" where
  "digitChar n = ''0123456789'' ! nat n"

function decimal :: "int \<Rightarrow> string" where
  "decimal n = (if n < 10 then [digitChar n] else decimal (n div 10) @ [digitChar (n mod 10)])"
  by pat_completeness auto
termination
  by (relation "measure nat") auto

declare decimal.simps [simp del]

definition pow10 :: "int \<Rightarrow> rat" where
  "pow10 k = (if 0 \<le> k then 10 ^ nat k else 1 / 10 ^ nat (- k))"

function floor_log10_int :: "int \<Rightarrow> int" where
  "floor_log10_int n = (if n < 10 then 0 else 1 + floor_log10_int (n div 10))"
  by pat_completeness auto
termination
  by (relation "measure nat") auto

declare floor_log10_int.simps [simp del]

definition ceil_log10_int :: "int \<Rightarrow> int" where
  "ceil_log10_int n = (if n \<le> 1 then 0 else 1 + floor_log10_int (n - 1))"

definition floor_log10 :: "rat \<Rightarrow> int" where
  "floor_log10 a =
     (if 1 \<le> a then floor_log10_int \<lfloor>a\<rfloor> else - ceil_log10_int \<lceil>1 / a\<rceil>)"

text \<open>
  The language prints a positive number \<open>q\<close> from the integers \<open>n\<close>, \<open>k\<close> and \<open>s\<close> with
  \<open>10 ^ (k - 1) \<le> s < 10 ^ k\<close> for which \<open>s * 10 ^ (n - k)\<close> rounds to \<open>q\<close> and \<open>k\<close> is as small as
  possible; of several \<open>s\<close> it takes the one that is nearest to \<open>q\<close>, and the even one of two
  that are as near. For \<open>k\<close> digits the nearest are the two multiples of \<open>10 ^ (d - k)\<close> around
  \<open>q\<close>, where \<open>10 ^ (d - 1) \<le> q < 10 ^ d\<close>, and \<open>10 ^ d\<close> itself. Seventeen digits tell any two
  numbers apart.
\<close>

definition scaled :: "int \<Rightarrow> int \<Rightarrow> int \<Rightarrow> rat" where
  "scaled s n k = of_int s * pow10 (n - k)"

definition candidates :: "rat \<Rightarrow> int \<Rightarrow> int \<Rightarrow> (int \<times> int) list" where
  "candidates q d k =
     (let s = \<lfloor>q / pow10 (d - k)\<rfloor>
      in [(d, s), (d, s + 1)] @ (if k = 1 then [(d + 1, 1)] else []))"

definition in_range :: "int \<Rightarrow> int \<times> int \<Rightarrow> bool" where
  "in_range k c = (10 ^ nat (k - 1) \<le> snd c \<and> snd c < 10 ^ nat k)"

definition rounds_to :: "rat \<Rightarrow> int \<Rightarrow> int \<times> int \<Rightarrow> bool" where
  "rounds_to q k c = (in_range k c \<and> fl64 (scaled (snd c) (fst c) k) = Num q)"

definition nearer :: "rat \<Rightarrow> int \<Rightarrow> int \<times> int \<Rightarrow> int \<times> int \<Rightarrow> bool" where
  "nearer q k c c' =
     (let a = \<bar>scaled (snd c) (fst c) k - q\<bar>;
          b = \<bar>scaled (snd c') (fst c') k - q\<bar>
      in a < b \<or> (a = b \<and> even (snd c)))"

fun nearest :: "rat \<Rightarrow> int \<Rightarrow> (int \<times> int) list \<Rightarrow> (int \<times> int) option" where
  "nearest q k [] = None"
| "nearest q k (c # cs) =
     (case nearest q k cs of
        None \<Rightarrow> Some c
      | Some c' \<Rightarrow> Some (if nearer q k c c' then c else c'))"

function shortest :: "rat \<Rightarrow> int \<Rightarrow> int \<Rightarrow> int \<times> int \<times> int" where
  "shortest q d k =
     (if 17 \<le> k then
        (case nearest q k (filter (in_range k) (candidates q d k)) of
           Some c \<Rightarrow> (fst c, k, snd c)
         | None \<Rightarrow> (d, k, \<lfloor>q / pow10 (d - k)\<rfloor>))
      else
        (case nearest q k (filter (rounds_to q k) (candidates q d k)) of
           Some c \<Rightarrow> (fst c, k, snd c)
         | None \<Rightarrow> shortest q d (k + 1)))"
  by pat_completeness auto
termination
  by (relation "measure (\<lambda>(q, d, k). nat (17 - k))") auto

declare shortest.simps [simp del]

definition format :: "int \<times> int \<times> int \<Rightarrow> string" where
  "format r =
     (case r of (n, k, s) \<Rightarrow>
        let ds = decimal s
        in if k \<le> n \<and> n \<le> 21 then ds @ replicate (nat (n - k)) (CHR ''0'')
           else if 0 < n \<and> n \<le> 21 then take (nat n) ds @ ''.'' @ drop (nat n) ds
           else if - 6 < n \<and> n \<le> 0 then ''0.'' @ replicate (nat (- n)) (CHR ''0'') @ ds
           else
             let e = n - 1;
                 es = (if e < 0 then ''-'' else ''+'') @ decimal \<bar>e\<bar>
             in if k = 1 then ds @ ''e'' @ es
                else take 1 ds @ ''.'' @ drop 1 ds @ ''e'' @ es)"

text \<open>The text of a number, as a template literal and \<^verbatim>\<open>String\<close> give it.\<close>

definition numberToString :: "number \<Rightarrow> string" where
  "numberToString x =
     (case x of
        NaN \<Rightarrow> ''NaN''
      | NegZero \<Rightarrow> ''0''
      | PosInfinity \<Rightarrow> ''Infinity''
      | NegInfinity \<Rightarrow> ''-Infinity''
      | Num q \<Rightarrow>
          if q = 0 then ''0''
          else (if q < 0 then ''-'' else '''') @
               format (shortest \<bar>q\<bar> (floor_log10 \<bar>q\<bar> + 1) 1))"

subsection \<open>The class and its start\<close>

text \<open>
  An instance holds its URL; the process it holds is the one of the runtime. The
  constructor builds the URL from the port number.
\<close>

record PocketIcServer =
  url :: string

definition newPocketIcServer :: "number \<Rightarrow> PocketIcServer" where
  "newPocketIcServer portNumber = \<lparr>url = ''http://127.0.0.1:'' @ numberToString portNumber\<rparr>"

definition getUrl :: "PocketIcServer \<Rightarrow> string" where
  "getUrl this = url this"

definition POLL_INTERVAL_MS :: nat where
  "POLL_INTERVAL_MS = 20"

definition POLL_TIMEOUT_MS :: nat where
  "POLL_TIMEOUT_MS = 30000"

text \<open>
  What \<^verbatim>\<open>start\<close> meets on the machine: the path \<^verbatim>\<open>getBinPath\<close> resolves to, whether
  \<^verbatim>\<open>exists\<close> finds the binary there, and what \<^verbatim>\<open>readFileAsString\<close> gives for the port file at
  each attempt of the poll, the text of the file or the error it throws (\<^verbatim>\<open>exists\<close> and
  \<^verbatim>\<open>readFileAsString\<close> are functions of \<^verbatim>\<open>./util\<close>, which is not under src/).
\<close>

record machine =
  binPath :: string
  binExists :: bool
  readFileAsString :: "nat \<Rightarrow> error + string"

definition assertBinExists :: "machine \<Rightarrow> error + unit" where
  "assertBinExists m = (if \<not> binExists m then Inl (BinNotFoundError (binPath m)) else Inr ())"

text \<open>
  Modelled from the spec: \<^verbatim>\<open>poll\<close> of \<^verbatim>\<open>./util\<close> is not under src/. The spec has it as a
  bounded retry with an interval and a deadline, with a sleep between the attempts: the
  callback is attempted every \<open>intervalMs\<close> milliseconds, the attempt \<open>k\<close> at the time
  \<open>k * intervalMs\<close>, while that is no later than \<open>timeoutMs\<close>. The first attempt that returns
  ends the poll with its value; an attempt that throws is retried, and when the last one
  throws the poll throws its error. The result comes with the number of attempts made.
\<close>

fun retry :: "(nat \<Rightarrow> error + 'a) \<Rightarrow> nat \<Rightarrow> nat \<Rightarrow> nat \<times> (error + 'a)" where
  "retry cb k 0 = (k, cb k)"
| "retry cb k (Suc n) =
     (case cb k of
        Inr v \<Rightarrow> (k, Inr v)
      | Inl e \<Rightarrow> retry cb (Suc k) n)"

definition poll :: "(nat \<Rightarrow> error + 'a) \<Rightarrow> nat \<Rightarrow> nat \<Rightarrow> nat \<times> (error + 'a)" where
  "poll cb intervalMs timeoutMs = retry cb 1 (timeoutMs div intervalMs - 1)"

text \<open>The callback that \<^verbatim>\<open>start\<close> polls, at the attempt \<open>k\<close>.\<close>

definition attempt :: "machine \<Rightarrow> nat \<Rightarrow> error + PocketIcServer" where
  "attempt m k =
     bindE (readFileAsString m k) (\<lambda>portString.
       let port = parseInt portString
       in if isNaN port then Inl BinTimeoutError
          else Inr (newPocketIcServer port))"

text \<open>
  \<^verbatim>\<open>start\<close>: the check of the binary, then the poll (the process is spawned in between,
  with the error listener on it: the runtime \<open>started\<close>). The result is the number of
  attempts made and what the promise settles to.
\<close>

definition start :: "machine \<Rightarrow> nat \<times> (error + PocketIcServer)" where
  "start m =
     (case assertBinExists m of
        Inl e \<Rightarrow> (0, Inl e)
      | Inr _ \<Rightarrow> poll (attempt m) POLL_INTERVAL_MS POLL_TIMEOUT_MS)"


section \<open>Properties of the create-instance encoder\<close>

lemma bindE_simps [simp]: "bindE (Inl e) f = Inl e" "bindE (Inr v) f = f v"
  by (simp_all add: bindE_def)

lemma nullish_simps [simp]: "nullish None d = d" "nullish (Some x) d = x"
  by (simp_all add: nullish_def)

lemma isNil_simps [simp]:
  "isNil None" "\<not> isNil (Some x)" "\<not> isNotNil None" "isNotNil (Some x)"
  by (simp_all add: isNil_def isNotNil_def)

lemma encodeSubnetConfig_None [simp]: "encodeSubnetConfig None = Inr None"
  by (simp add: encodeSubnetConfig_def)

lemma mapE_all_nil:
  "set xs \<subseteq> {None} \<Longrightarrow> mapE encodeSubnetConfig xs = Inr (replicate (length xs) None)"
  by (induction xs) auto

lemma encodeMany_all_nil:
  "(case configs of None \<Rightarrow> True | Some xs \<Rightarrow> set xs \<subseteq> {None}) \<Longrightarrow>
   encodeManySubnetConfigs configs = Inr []"
  by (cases configs) (simp_all add: encodeManySubnetConfigs_def mapE_all_nil filterNotNil_def)

lemma encodeSubnetConfig_default [simp]:
  "encodeSubnetConfig (Some defaultApplicationSubnet) = Inr (Some encodedDefaultSubnet)"
  by (simp add: encodeSubnetConfig_def defaultApplicationSubnet_def encodedDefaultSubnet_def
      encodeDtsFlag_def encodeInstructionConfig_def)

lemma encodeMany_default [simp]:
  "encodeManySubnetConfigs (Some [Some defaultApplicationSubnet]) = Inr [encodedDefaultSubnet]"
  by (simp add: encodeManySubnetConfigs_def filterNotNil_def)

lemma encodeMany_None [simp]: "encodeManySubnetConfigs None = Inr []"
  by (simp add: encodeManySubnetConfigs_def filterNotNil_def)

text \<open>
  C1, as stated, fails: the request \<^verbatim>\<open>{}\<close> names no subnet in any role, and the encoder
  does not raise on it. Its application list is absent, so the default Application subnet
  is put in its place and the payload is returned.
\<close>

theorem C1_empty_request_counterexample:
  "nns emptyRequest = None \<and> sns emptyRequest = None \<and> ii emptyRequest = None \<and>
   fiduciary emptyRequest = None \<and> bitcoin emptyRequest = None \<and>
   system emptyRequest = None \<and> application emptyRequest = None \<and>
   verifiedApplication emptyRequest = None \<and>
   encodeCreateInstanceRequest (Some emptyRequest) =
     Inr \<lparr>subnet_config_set =
            \<lparr>enc_nns = None, enc_sns = None, enc_ii = None, enc_fiduciary = None,
             enc_bitcoin = None, enc_system = [], enc_application = [encodedDefaultSubnet],
             enc_verified_application = []\<rparr>,
          nonmainnet_features = False\<rparr>"
  by (simp add: emptyRequest_def encodeCreateInstanceRequest_def)

text \<open>
  C1, amended: a request that is present, names no subnet in any role and carries an
  application list (empty, or holding nil entries only) raises the topology-validation
  failure; no payload is returned. The system and verified-application lists may be
  absent or hold no config.
\<close>

theorem C1_no_subnets_rejected:
  assumes "nns r = None" "sns r = None" "ii r = None" "fiduciary r = None" "bitcoin r = None"
    and "case system r of None \<Rightarrow> True | Some xs \<Rightarrow> set xs \<subseteq> {None}"
    and "application r = Some apps" "set apps \<subseteq> {None}"
    and "case verifiedApplication r of None \<Rightarrow> True | Some xs \<Rightarrow> set xs \<subseteq> {None}"
  shows "encodeCreateInstanceRequest (Some r) = Inl TopologyValidationError"
proof -
  have "encodeManySubnetConfigs (Some apps) = Inr []"
    using assms(8) by (simp add: encodeMany_all_nil)
  then show ?thesis
    using assms by (simp add: encodeCreateInstanceRequest_def encodeMany_all_nil)
qed

theorem C1_no_subnets_rejected_witness:
  "encodeCreateInstanceRequest
     (Some (emptyRequest\<lparr>system := Some [], application := Some [None],
                          verifiedApplication := Some []\<rparr>))
     = Inl TopologyValidationError"
  using C1_no_subnets_rejected
    [of "emptyRequest\<lparr>system := Some [], application := Some [None],
                       verifiedApplication := Some []\<rparr>" "[None]"]
  by (simp add: emptyRequest_def)

text \<open>
  C4: an absent request encodes to exactly one Application subnet, Enabled, Production,
  New, and nothing else; an absent deterministic-time-slicing flag encodes as Enabled and
  an absent benchmarking-instruction-limits flag as Production, in every subnet config
  that is encoded; every config whose state is New or FromPath is encoded.
\<close>

theorem C4_defaulting:
  "encodeCreateInstanceRequest None =
     Inr \<lparr>subnet_config_set =
            \<lparr>enc_nns = None, enc_sns = None, enc_ii = None, enc_fiduciary = None,
             enc_bitcoin = None, enc_system = [],
             enc_application =
               [\<lparr>dts_flag = Enabled, instruction_config = Production, state_config = New\<rparr>],
             enc_verified_application = []\<rparr>,
          nonmainnet_features = False\<rparr>
   \<and> encodeDtsFlag None = Enabled
   \<and> encodeInstructionConfig None = Production
   \<and> (\<forall>c e. encodeSubnetConfig (Some c) = Inr (Some e) \<longrightarrow>
          (enableDeterministicTimeSlicing c = None \<longrightarrow> dts_flag e = Enabled) \<and>
          (enableBenchmarkingInstructionLimits c = None \<longrightarrow> instruction_config e = Production))
   \<and> (\<forall>c. (\<exists>t. state c = OtherSubnetStateConfig t) \<or>
            (\<exists>e. encodeSubnetConfig (Some c) = Inr (Some e)))"
proof (intro conjI allI impI)
  show "encodeCreateInstanceRequest None =
     Inr \<lparr>subnet_config_set =
            \<lparr>enc_nns = None, enc_sns = None, enc_ii = None, enc_fiduciary = None,
             enc_bitcoin = None, enc_system = [],
             enc_application =
               [\<lparr>dts_flag = Enabled, instruction_config = Production, state_config = New\<rparr>],
             enc_verified_application = []\<rparr>,
          nonmainnet_features = False\<rparr>"
    by (simp add: encodeCreateInstanceRequest_def defaultCreateInstanceRequest_def
        encodedDefaultSubnet_def)
next
  fix c e
  assume "encodeSubnetConfig (Some c) = Inr (Some e)" "enableDeterministicTimeSlicing c = None"
  then show "dts_flag e = Enabled"
    by (auto simp: encodeSubnetConfig_def encodeDtsFlag_def split: SubnetStateConfig.splits)
next
  fix c e
  assume "encodeSubnetConfig (Some c) = Inr (Some e)"
    "enableBenchmarkingInstructionLimits c = None"
  then show "instruction_config e = Production"
    by (auto simp: encodeSubnetConfig_def encodeInstructionConfig_def
        split: SubnetStateConfig.splits)
next
  fix c
  show "(\<exists>t. state c = OtherSubnetStateConfig t) \<or>
        (\<exists>e. encodeSubnetConfig (Some c) = Inr (Some e))"
    by (cases "state c") (simp_all add: encodeSubnetConfig_def)
qed (simp_all add: encodeDtsFlag_def encodeInstructionConfig_def)

theorem C4_defaulting_witness:
  "encodeSubnetConfig (Some defaultApplicationSubnet) = Inr (Some encodedDefaultSubnet) \<and>
   enableDeterministicTimeSlicing defaultApplicationSubnet = None \<and>
   enableBenchmarkingInstructionLimits defaultApplicationSubnet = None \<and>
   dts_flag encodedDefaultSubnet = Enabled \<and>
   instruction_config encodedDefaultSubnet = Production"
proof -
  have h: "encodeSubnetConfig (Some defaultApplicationSubnet) = Inr (Some encodedDefaultSubnet)"
    by simp
  have n: "enableDeterministicTimeSlicing defaultApplicationSubnet = None"
    "enableBenchmarkingInstructionLimits defaultApplicationSubnet = None"
    by (simp_all add: defaultApplicationSubnet_def)
  from C4_defaulting h n
  have "dts_flag encodedDefaultSubnet = Enabled \<and>
        instruction_config encodedDefaultSubnet = Production"
    by blast
  with h n show ?thesis by simp
qed










section \<open>Properties of the base64 codec\<close>

lemma index_of_nth:
  "distinct xs \<Longrightarrow> i < length xs \<Longrightarrow> index_of (xs ! i) xs = Some i"
proof (induction xs arbitrary: i)
  case Nil
  then show ?case by simp
next
  case (Cons y ys)
  show ?case
  proof (cases i)
    case 0
    then show ?thesis by simp
  next
    case (Suc j)
    with Cons.prems have "ys ! j \<noteq> y" "j < length ys" "distinct ys"
      by (auto simp: in_set_conv_nth)
    with Cons.IH [of j] Suc show ?thesis by simp
  qed
qed

lemma length_b64chars: "length b64chars = 64"
  by (simp add: b64chars_def)

lemma distinct_b64chars: "distinct b64chars"
  by (simp add: b64chars_def)

lemma other_chars_notin_b64chars:
  "CHR ''='' \<notin> set b64chars" "CHR ''-'' \<notin> set b64chars" "CHR ''_'' \<notin> set b64chars"
  by (simp_all add: b64chars_def)

lemma b64char_in: "i < 64 \<Longrightarrow> b64char i \<in> set b64chars"
  by (simp add: b64char_def length_b64chars)

lemma unbase64_b64char:
  assumes "i < 64"
  shows "unbase64 (b64char i) = Some i"
proof -
  from assms have "b64char i \<in> set b64chars" by (rule b64char_in)
  with other_chars_notin_b64chars
  have "b64char i \<noteq> CHR ''-''" "b64char i \<noteq> CHR ''_''" by auto
  moreover have "b64index (b64char i) = Some i"
    using assms
    by (simp add: b64index_def b64char_def index_of_nth distinct_b64chars length_b64chars)
  ultimately show ?thesis by (simp add: unbase64_def)
qed

lemma b64char_not_pad: "i < 64 \<Longrightarrow> b64char i \<noteq> CHR ''=''"
  using other_chars_notin_b64chars(1) b64char_in [of i] by auto

lemma sextets_b64char: "i < 64 \<Longrightarrow> sextets (b64char i # cs) = i # sextets cs"
  by (simp add: unbase64_b64char b64char_not_pad)

lemma sextets_pad [simp]: "sextets (CHR ''='' # cs) = []"
  by simp

lemma unat_byte_less: "unat (a :: byte) < 256"
  using unsigned_less [of a] by simp

lemma byte_of_unat: "n = unat (w :: byte) \<Longrightarrow> of_nat n = w"
  by simp

lemma base64_roundtrip: "base64Decode (base64Encode bs) = bs"
proof (induction bs rule: base64Encode.induct)
  case 1
  then show ?case by (simp add: base64Decode_def)
next
  case (2 a)
  define x where "x = unat a"
  have "x < 256" unfolding x_def by (rule unat_byte_less)
  then have i: "x div 4 < 64" "x mod 4 * 16 < 64" by auto
  have enc: "base64Encode [a] = [b64char (x div 4), b64char (x mod 4 * 16), CHR ''='', CHR ''='']"
    by (simp add: x_def Let_def)
  have sx: "sextets (base64Encode [a]) = [x div 4, x mod 4 * 16]"
    unfolding enc by (simp only: sextets_b64char i sextets_pad)
  have b0: "of_nat (x div 4 * 4 + x mod 4 * 16 div 16) = a"
    by (rule byte_of_unat) (simp add: x_def)
  show ?case
    unfolding base64Decode_def sx by (simp only: pack.simps b0)
next
  case (3 a b)
  define x y where "x = unat a" and "y = unat b"
  have lt: "x < 256" "y < 256" unfolding x_def y_def by (rule unat_byte_less)+
  then have i: "x div 4 < 64" "x mod 4 * 16 + y div 16 < 64" "y mod 16 * 4 < 64" by auto
  have enc: "base64Encode [a, b] =
      [b64char (x div 4), b64char (x mod 4 * 16 + y div 16), b64char (y mod 16 * 4), CHR ''='']"
    by (simp add: x_def y_def Let_def)
  have sx: "sextets (base64Encode [a, b]) = [x div 4, x mod 4 * 16 + y div 16, y mod 16 * 4]"
    unfolding enc by (simp only: sextets_b64char i sextets_pad)
  have b0: "of_nat (x div 4 * 4 + (x mod 4 * 16 + y div 16) div 16) = a"
    using lt by (intro byte_of_unat) (simp add: x_def)
  have b1: "of_nat ((x mod 4 * 16 + y div 16) mod 16 * 16 + y mod 16 * 4 div 4) = b"
    using lt by (intro byte_of_unat) (simp add: y_def)
  show ?case
    unfolding base64Decode_def sx by (simp only: pack.simps b0 b1)
next
  case (4 a b c rest)
  define x y z where "x = unat a" and "y = unat b" and "z = unat c"
  have lt: "x < 256" "y < 256" "z < 256" unfolding x_def y_def z_def by (rule unat_byte_less)+
  then have i: "x div 4 < 64" "x mod 4 * 16 + y div 16 < 64"
    "y mod 16 * 4 + z div 64 < 64" "z mod 64 < 64" by auto
  have enc: "base64Encode (a # b # c # rest) =
      b64char (x div 4) # b64char (x mod 4 * 16 + y div 16) #
      b64char (y mod 16 * 4 + z div 64) # b64char (z mod 64) # base64Encode rest"
    by (simp add: x_def y_def z_def Let_def)
  have sx: "sextets (base64Encode (a # b # c # rest)) =
      x div 4 # (x mod 4 * 16 + y div 16) # (y mod 16 * 4 + z div 64) # z mod 64 #
      sextets (base64Encode rest)"
    unfolding enc by (simp only: sextets_b64char i)
  have b0: "of_nat (x div 4 * 4 + (x mod 4 * 16 + y div 16) div 16) = a"
    using lt by (intro byte_of_unat) (simp add: x_def)
  have b1: "of_nat ((x mod 4 * 16 + y div 16) mod 16 * 16 + (y mod 16 * 4 + z div 64) div 4) = b"
    using lt by (intro byte_of_unat) (simp add: y_def)
  have b2: "of_nat ((y mod 16 * 4 + z div 64) mod 4 * 64 + z mod 64) = c"
    using lt by (intro byte_of_unat) (simp add: z_def)
  from "4.IH" have ih: "pack (sextets (base64Encode rest)) = rest"
    by (simp add: base64Decode_def)
  show ?case
    unfolding base64Decode_def sx by (simp only: pack.simps b0 b1 b2 ih)
qed

lemma principal_roundtrip: "base64DecodePrincipal (base64EncodePrincipal p) = p"
  by (simp add: base64DecodePrincipal_def base64EncodePrincipal_def base64_roundtrip)

section \<open>Properties of the protocol codec\<close>

text \<open>
  C6: an unknown wire tag is a thrown error, never a default value: \<open>decodeSubnetKind\<close>
  throws on every token outside the seven known ones, \<open>decodeCanisterHttpMethod\<close> on
  every token other than GET, POST and HEAD, and \<open>encodeHttpsOutcallResponse\<close> on every
  mock whose type is neither \<^verbatim>\<open>success\<close> nor \<^verbatim>\<open>reject\<close>; so does \<open>encodeSubnetConfig\<close>
  on a subnet state whose type is neither \<^verbatim>\<open>new\<close> nor \<^verbatim>\<open>fromPath\<close>.
\<close>

theorem C6_unknown_tags_raise:
  "(kind \<notin> {''Application'', ''Bitcoin'', ''Fiduciary'', ''II'', ''NNS'', ''SNS'', ''System''} \<longrightarrow>
      decodeSubnetKind kind = Inl (Error (''Unknown subnet kind: '' @ kind)))
   \<and> (method \<notin> {''GET'', ''POST'', ''HEAD''} \<longrightarrow>
      decodeCanisterHttpMethod method = Inl (Error (''Unknown canister HTTP method: '' @ method)))
   \<and> (type res \<notin> {''success'', ''reject''} \<longrightarrow>
      encodeHttpsOutcallResponse res = Inl (Error ''Unknown response type: [object Object]''))
   \<and> (state c = OtherSubnetStateConfig t \<longrightarrow>
      encodeSubnetConfig (Some c) = Inl (Error ''Unknown subnet state type: [object Object]''))"
  by (simp add: decodeSubnetKind_def decodeCanisterHttpMethod_def encodeHttpsOutcallResponse_def
      encodeSubnetConfig_def)

theorem C6_unknown_tags_raise_witness:
  "decodeSubnetKind ''Unknown'' = Inl (Error ''Unknown subnet kind: Unknown'') \<and>
   decodeCanisterHttpMethod ''PUT'' = Inl (Error ''Unknown canister HTTP method: PUT'') \<and>
   encodeHttpsOutcallResponse
     \<lparr>type = ''timeout'', statusCode = Num 504, headers = [], body = [], message = ''late''\<rparr>
     = Inl (Error ''Unknown response type: [object Object]'') \<and>
   encodeSubnetConfig
     (Some (defaultApplicationSubnet\<lparr>state := OtherSubnetStateConfig ''fromSnapshot''\<rparr>))
     = Inl (Error ''Unknown subnet state type: [object Object]'')"
  using C6_unknown_tags_raise [of "''Unknown''" "''PUT''"
      "\<lparr>type = ''timeout'', statusCode = Num 504, headers = [], body = [], message = ''late''\<rparr>"
      "defaultApplicationSubnet\<lparr>state := OtherSubnetStateConfig ''fromSnapshot''\<rparr>"
      "''fromSnapshot''"]
  by simp

text \<open>
  C3: a call response is one of three shapes, and the decoder has one outcome for each.
  An \<open>Err\<close> response throws an error that carries the description; a \<open>Reject\<close> inside
  \<open>Ok\<close> throws an error that carries the reject message; a \<open>Reply\<close> inside \<open>Ok\<close>
  returns the bytes its text decodes to, for every text, and the text
  \<open>base64Encode bytes\<close> returns \<open>bytes\<close>. The decoder returns exactly on the \<open>Reply\<close>
  shape and throws exactly on the other two.
\<close>

theorem C3_call_result_classification:
  "decodeCanisterCallResponse (Err \<lparr>code = c, description = d\<rparr>) = Inl (Error d)
   \<and> decodeCanisterCallResponse (Ok (Reject m)) = Inl (Error m)
   \<and> decodeCanisterCallResponse (Ok (Reply b)) = Inr \<lparr>body = base64Decode b\<rparr>
   \<and> decodeCanisterCallResponse (Ok (Reply (base64Encode bytes))) = Inr \<lparr>body = bytes\<rparr>
   \<and> ((\<exists>r. decodeCanisterCallResponse res = Inr r) = (\<exists>t. res = Ok (Reply t)))
   \<and> ((\<exists>x. decodeCanisterCallResponse res = Inl x) =
        ((\<exists>e. res = Err e) \<or> (\<exists>t. res = Ok (Reject t))))"
proof -
  have cls: "((\<exists>r. decodeCanisterCallResponse res = Inr r) = (\<exists>t. res = Ok (Reply t)))
    \<and> ((\<exists>x. decodeCanisterCallResponse res = Inl x) =
        ((\<exists>e. res = Err e) \<or> (\<exists>t. res = Ok (Reject t))))"
  proof (cases res)
    case (Ok x)
    then show ?thesis by (cases x) (simp_all add: decodeCanisterCallResponse_def)
  next
    case (Err e)
    then show ?thesis by (simp add: decodeCanisterCallResponse_def)
  qed
  show ?thesis
    using cls by (simp add: decodeCanisterCallResponse_def base64_roundtrip)
qed

text \<open>The responses of the spec's examples, and a reply whose text is no base64.\<close>

lemma decodeCanisterCallResponse_examples:
  "decodeCanisterCallResponse (Err \<lparr>code = ''X'', description = ''boom''\<rparr>) = Inl (Error ''boom'')"
  "decodeCanisterCallResponse (Ok (Reject ''no'')) = Inl (Error ''no'')"
  "decodeCanisterCallResponse (Ok (Reply ''Ym9vbQ=='')) = Inr \<lparr>body = [98, 111, 111, 109]\<rparr>"
  "decodeCanisterCallResponse (Ok (Reply ''!'')) = Inr \<lparr>body = []\<rparr>"
  by (simp_all add: decodeCanisterCallResponse_def base64Decode_def unbase64_def b64index_def
      b64chars_def)

text \<open>
  C10: \<open>decodeGetSubnetIdResponse\<close> returns on each of its three input shapes and never
  throws: a nil response and an empty object decode to a null subnet id, and a response
  that carries \<open>subnet_id\<close> decodes to the principal its text decodes to; the text of an
  encoded principal gives that principal back.
\<close>

theorem C10_decodeGetSubnetIdResponse:
  "decodeGetSubnetIdResponse None = Inr \<lparr>subnetId = None\<rparr>
   \<and> decodeGetSubnetIdResponse (Some EmptyObject) = Inr \<lparr>subnetId = None\<rparr>
   \<and> decodeGetSubnetIdResponse (Some (WithSubnetId s)) =
        Inr \<lparr>subnetId = Some (base64DecodePrincipal s)\<rparr>
   \<and> decodeGetSubnetIdResponse (Some (WithSubnetId (base64EncodePrincipal q))) =
        Inr \<lparr>subnetId = Some q\<rparr>
   \<and> (\<exists>r. decodeGetSubnetIdResponse res = Inr r)
   \<and> (res = None \<or> res = Some EmptyObject \<or> (\<exists>t. res = Some (WithSubnetId t)))"
proof -
  have shapes: "res = None \<or> res = Some EmptyObject \<or> (\<exists>t. res = Some (WithSubnetId t))"
  proof (cases res)
    case None
    then show ?thesis by simp
  next
    case (Some a)
    then show ?thesis by (cases a) simp_all
  qed
  have eqs: "decodeGetSubnetIdResponse None = Inr \<lparr>subnetId = None\<rparr>"
    "decodeGetSubnetIdResponse (Some EmptyObject) = Inr \<lparr>subnetId = None\<rparr>"
    "\<And>t. decodeGetSubnetIdResponse (Some (WithSubnetId t)) =
        Inr \<lparr>subnetId = Some (base64DecodePrincipal t)\<rparr>"
    by (simp_all add: decodeGetSubnetIdResponse_def in_subnet_id_def subnet_id_def)
  from shapes eqs have "\<exists>r. decodeGetSubnetIdResponse res = Inr r" by auto
  with shapes eqs show ?thesis by (simp add: principal_roundtrip)
qed

lemma decodeGetSubnetIdResponse_examples:
  "decodeGetSubnetIdResponse (Some (WithSubnetId ''AAAAAAAAAAEBAQ=='')) =
     Inr \<lparr>subnetId = Some (fromUint8Array [0, 0, 0, 0, 0, 0, 0, 1, 1, 1])\<rparr>"
  "decodeGetSubnetIdResponse (Some (WithSubnetId ''!'')) =
     Inr \<lparr>subnetId = Some (fromUint8Array [])\<rparr>"
  "decodeGetSubnetIdResponse (Some (WithSubnetId ''AAAA!'')) =
     Inr \<lparr>subnetId = Some (fromUint8Array [0, 0, 0])\<rparr>"
  by (simp_all add: decodeGetSubnetIdResponse_def in_subnet_id_def subnet_id_def
      base64DecodePrincipal_def base64Decode_def unbase64_def b64index_def b64chars_def)

text \<open>
  C2, as stated, fails in its second round trip: the wire value \<open>SubnetId ''!''\<close> has one
  of the three shapes; its text is no base64, decodes to the principal of no bytes, and
  that principal encodes to the empty text.
\<close>

theorem C2_lenient_text_counterexample:
  "decodeEffectivePrincipal (SubnetId ''!'') = Some (EffectiveSubnetId (fromUint8Array [])) \<and>
   encodeEffectivePrincipal (decodeEffectivePrincipal (SubnetId ''!'')) = SubnetId [] \<and>
   encodeEffectivePrincipal (decodeEffectivePrincipal (SubnetId ''!'')) \<noteq> SubnetId ''!''"
  by (simp add: decodeEffectivePrincipal_def encodeEffectivePrincipal_def
      base64DecodePrincipal_def base64EncodePrincipal_def base64Decode_def unbase64_def
      b64index_def b64chars_def isNil_def)

text \<open>
  C2, amended: encoding null gives the sentinel and decoding the sentinel gives null;
  a subnet-routing value encodes to a \<open>SubnetId\<close> value and a canister-routing value to
  a \<open>CanisterId\<close> value; decoding the encoding of any effective principal returns it;
  and encoding the decoding of a wire value returns it exactly when the wire value is the
  encoding of an effective principal.
\<close>

theorem C2_effective_principal_roundtrip:
  "encodeEffectivePrincipal None = EncodedNone
   \<and> decodeEffectivePrincipal EncodedNone = None
   \<and> encodeEffectivePrincipal (Some (EffectiveSubnetId x)) = SubnetId (base64EncodePrincipal x)
   \<and> encodeEffectivePrincipal (Some (EffectiveCanisterId x)) = CanisterId (base64EncodePrincipal x)
   \<and> decodeEffectivePrincipal (encodeEffectivePrincipal p) = p
   \<and> ((encodeEffectivePrincipal (decodeEffectivePrincipal w) = w) =
        (\<exists>v. w = encodeEffectivePrincipal v))"
proof -
  have rt: "decodeEffectivePrincipal (encodeEffectivePrincipal v) = v" for v
  proof (cases v)
    case None
    then show ?thesis
      by (simp add: encodeEffectivePrincipal_def decodeEffectivePrincipal_def isNil_def)
  next
    case (Some a)
    then show ?thesis
      by (cases a)
        (simp_all add: encodeEffectivePrincipal_def decodeEffectivePrincipal_def
          principal_roundtrip isNil_def)
  qed
  have iff: "(encodeEffectivePrincipal (decodeEffectivePrincipal w) = w) =
        (\<exists>v. w = encodeEffectivePrincipal v)"
  proof
    assume "encodeEffectivePrincipal (decodeEffectivePrincipal w) = w"
    then have "w = encodeEffectivePrincipal (decodeEffectivePrincipal w)" by simp
    then show "\<exists>v. w = encodeEffectivePrincipal v" ..
  next
    assume "\<exists>v. w = encodeEffectivePrincipal v"
    then obtain v where "w = encodeEffectivePrincipal v" ..
    then show "encodeEffectivePrincipal (decodeEffectivePrincipal w) = w"
      by (simp add: rt)
  qed
  show ?thesis
    using iff by (simp add: rt) (simp add: encodeEffectivePrincipal_def
        decodeEffectivePrincipal_def isNil_def)
qed

theorem C2_effective_principal_roundtrip_witness:
  "encodeEffectivePrincipal (Some (EffectiveCanisterId (fromUint8Array [0, 0, 0, 0, 0, 0, 0, 1, 1, 1])))
     = CanisterId ''AAAAAAAAAAEBAQ=='' \<and>
   encodeEffectivePrincipal (decodeEffectivePrincipal (CanisterId ''AAAAAAAAAAEBAQ=='')) =
     CanisterId ''AAAAAAAAAAEBAQ==''"
proof -
  have e: "encodeEffectivePrincipal
      (Some (EffectiveCanisterId (fromUint8Array [0, 0, 0, 0, 0, 0, 0, 1, 1, 1])))
      = CanisterId ''AAAAAAAAAAEBAQ==''"
    by (simp add: encodeEffectivePrincipal_def base64EncodePrincipal_def b64char_def
        b64chars_def isNil_def)
  note t = C2_effective_principal_roundtrip [of "fromUint8Array []" None
      "CanisterId ''AAAAAAAAAAEBAQ==''"]
  have "\<exists>v. CanisterId ''AAAAAAAAAAEBAQ=='' = encodeEffectivePrincipal v"
    using e [symmetric] ..
  with t have "encodeEffectivePrincipal (decodeEffectivePrincipal (CanisterId ''AAAAAAAAAAEBAQ=='')) =
     CanisterId ''AAAAAAAAAAEBAQ==''" by blast
  with e show ?thesis by simp
qed

section \<open>Properties of the time conversion\<close>

text \<open>
  Integers up to \<open>2 ^ 53\<close> in magnitude are numbers: rounding leaves them as they are.
\<close>

lemma floor_log2_int_bounds:
  "1 \<le> n \<Longrightarrow>
   0 \<le> floor_log2_int n \<and> 2 ^ nat (floor_log2_int n) \<le> n \<and>
   n < 2 ^ (nat (floor_log2_int n) + 1)"
proof (induction n rule: floor_log2_int.induct)
  case (1 n)
  show ?case
  proof (cases "n < 2")
    case True
    with "1.prems" have "n = 1" by simp
    then show ?thesis by (simp add: floor_log2_int.simps)
  next
    case False
    then have h: "1 \<le> n div 2" by simp
    from "1.IH" [OF False h]
    have ih: "0 \<le> floor_log2_int (n div 2)"
      "2 ^ nat (floor_log2_int (n div 2)) \<le> n div 2"
      "n div 2 < 2 ^ (nat (floor_log2_int (n div 2)) + 1)" by blast+
    have eq: "floor_log2_int n = 1 + floor_log2_int (n div 2)"
      using False by (subst floor_log2_int.simps) simp
    have nat_eq: "nat (floor_log2_int n) = Suc (nat (floor_log2_int (n div 2)))"
      using ih(1) eq by simp
    define P :: int where "P = 2 ^ nat (floor_log2_int (n div 2))"
    have d: "2 * (n div 2) \<le> n" "n < 2 * (n div 2) + 2" by presburger+
    have "P \<le> n div 2" "n div 2 < 2 * P" using ih by (simp_all add: P_def)
    with d have "2 * P \<le> n" "n < 2 * (2 * P)" by linarith+
    moreover have "0 \<le> floor_log2_int n" using ih(1) eq by simp
    moreover have "(2::int) ^ nat (floor_log2_int n) = 2 * P"
      "(2::int) ^ (nat (floor_log2_int n) + 1) = 2 * (2 * P)"
      by (simp_all add: nat_eq P_def)
    ultimately show ?thesis by simp
  qed
qed

lemma round_half_even_of_int [simp]: "round_half_even (of_int z) = z"
  by (simp add: round_half_even_def)

lemma pow2_pos: "0 < pow2 k"
  by (simp add: pow2_def)

lemma fl64_exact:
  assumes "0 < a" "a < pow2 1024" "a / pow2 (max (floor_log2 a - 52) (- 1074)) = of_int z"
  shows "fl64 a = Num a" "fl64 (- a) = Num (- a)"
proof -
  let ?e = "max (floor_log2 a - 52) (- 1074)"
  have r: "of_int z * pow2 ?e = a"
    using assms(3) pow2_pos [of ?e] by (simp add: field_simps)
  show "fl64 a = Num a"
    using assms(1,2) r by (simp add: fl64_def Let_def assms(3))
  show "fl64 (- a) = Num (- a)"
    using assms(1,2) r by (simp add: fl64_def Let_def assms(3))
qed


lemma fl64_of_int:
  assumes "1 \<le> n" "n \<le> 2 ^ 53"
  shows "fl64 (of_int n) = Num (of_int n)" "fl64 (- of_int n) = Num (- of_int n)"
proof -
  define k where "k = floor_log2_int n"
  from floor_log2_int_bounds [OF assms(1)]
  have k: "0 \<le> k" "2 ^ nat k \<le> n" "n < 2 ^ (nat k + 1)" by (simp_all add: k_def)
  have "(2::int) ^ nat k \<le> 2 ^ 53" using k(2) assms(2) by linarith
  then have "nat k \<le> 53" by (rule power_le_imp_le_exp [rotated]) simp
  then have k53: "k \<le> 53" by simp
  have fl: "floor_log2 (of_int n) = k"
    using assms(1) by (simp add: floor_log2_def k_def)
  have e: "max (floor_log2 (of_int n) - 52) (- 1074) = k - 52"
    using k(1) by (simp add: fl)
  have "\<exists>z. (of_int n :: rat) / pow2 (k - 52) = of_int z"
  proof (cases "k = 53")
    case True
    with k(2) assms(2) have "n = 2 ^ 53" by simp
    then have "(of_int n :: rat) / pow2 (k - 52) = of_int (2 ^ 52)"
      using True by (simp add: pow2_def)
    then show ?thesis by blast
  next
    case False
    with k53 have le: "k \<le> 52" by simp
    have "pow2 (k - 52) = 1 / 2 ^ nat (52 - k)"
      using le by (cases "k = 52") (simp_all add: pow2_def)
    then have "(of_int n :: rat) / pow2 (k - 52) = of_int (n * 2 ^ nat (52 - k))"
      by simp
    then show ?thesis by blast
  qed
  then obtain z where z: "(of_int n :: rat) / pow2 (max (floor_log2 (of_int n) - 52) (- 1074)) = of_int z"
    using e by auto
  have pos: "(0::rat) < of_int n" using assms(1) by simp
  have "(of_int n :: rat) \<le> 2 ^ 53" using assms(2) by (metis of_int_le_iff of_int_numeral of_int_power)
  also have "\<dots> < pow2 1024" by (simp add: pow2_def)
  finally have lt: "(of_int n :: rat) < pow2 1024" .
  show "fl64 (of_int n) = Num (of_int n)" "fl64 (- of_int n) = Num (- of_int n)"
    using fl64_exact [OF pos lt z] by simp_all
qed

lemma safe_integer_is_number:
  assumes "\<bar>n\<bar> \<le> 2 ^ 53"
  shows "fl64 (of_int n) = Num (of_int n)"
proof -
  consider "n = 0" | "1 \<le> n" | "1 \<le> - n" by linarith
  then show ?thesis
  proof cases
    case 1
    then show ?thesis by (simp add: fl64_def)
  next
    case 2
    with assms fl64_of_int(1) [of n] show ?thesis by simp
  next
    case 3
    with assms fl64_of_int(2) [of "- n"] show ?thesis by simp
  qed
qed

lemma js_mul_Num:
  "js_mul (Num x) (Num y) =
     (if x = 0 \<or> y = 0 then signed_zero ((x < 0) \<noteq> (y < 0)) else fl64 (x * y))"
  by (simp add: js_mul_def is_zero_def is_inf_def is_neg_def val_def)

lemma js_div_Num:
  "y \<noteq> 0 \<Longrightarrow>
   js_div (Num x) (Num y) =
     (if x = 0 then signed_zero ((x < 0) \<noteq> (y < 0)) else fl64 (x / y))"
  by (simp add: js_div_def is_zero_def is_inf_def is_neg_def val_def)

text \<open>
  Whole milliseconds up to 9007199254 have exact nanoseconds, and make the round trip.
\<close>

lemma time_roundtrip_safe_integers:
  assumes "\<bar>t\<bar> \<le> 9007199254"
  shows "decodeGetTimeResponse (encodeSetTimeRequest \<lparr>millisSinceEpoch = Num (of_int t)\<rparr>) =
     \<lparr>millisSinceEpoch = Num (of_int t)\<rparr>"
proof -
  have "\<bar>t * 1000000\<bar> \<le> 2 ^ 53" using assms by (simp add: abs_mult)
  from safe_integer_is_number [OF this]
  have p: "fl64 (of_int t * 1000000) = Num (of_int t * 1000000)" by simp
  have "\<bar>t\<bar> \<le> 2 ^ 53" using assms by simp
  from safe_integer_is_number [OF this]
  have q: "fl64 (of_int t) = Num (of_int t)" .
  show ?thesis
    using p q
    by (simp add: encodeSetTimeRequest_def decodeGetTimeResponse_def js_mul_Num js_div_Num
        signed_zero_def)
qed

text \<open>
  Where the product is no double the encoder rounds it, and the round trip can miss:
  1730937600002 ms is 1730937600002000000 ns, half way between two doubles.
\<close>

lemma encodeSetTimeRequest_rounds:
  "encodeSetTimeRequest \<lparr>millisSinceEpoch = Num 1730937600002\<rparr> =
     \<lparr>nanos_since_epoch = Num 1730937600001999872\<rparr>"
  "decodeGetTimeResponse (encodeSetTimeRequest \<lparr>millisSinceEpoch = Num 1730937600002\<rparr>) \<noteq>
     \<lparr>millisSinceEpoch = Num 1730937600002\<rparr>"
  by code_simp+

text \<open>
  C5: \<open>encodeSetTimeRequest\<close> multiplies the milliseconds by 1,000,000 and
  \<open>decodeGetTimeResponse\<close> divides the nanoseconds by 1,000,000, with the language's
  operators on numbers; for every millisecond timestamp \<open>q\<close> that is a number and whose
  nanoseconds \<open>q * 1000000\<close> are a number too, the encoder's product is exact and decoding
  the encoding returns \<open>q\<close>.
\<close>

theorem C5_time_unit_conversion:
  "encodeSetTimeRequest \<lparr>millisSinceEpoch = t\<rparr> =
     \<lparr>nanos_since_epoch = js_mul t (Num 1000000)\<rparr>
   \<and> decodeGetTimeResponse \<lparr>nanos_since_epoch = n\<rparr> =
     \<lparr>millisSinceEpoch = js_div n (Num 1000000)\<rparr>
   \<and> (fl64 q = Num q \<and> fl64 (q * 1000000) = Num (q * 1000000) \<longrightarrow>
        encodeSetTimeRequest \<lparr>millisSinceEpoch = Num q\<rparr> =
          \<lparr>nanos_since_epoch = Num (q * 1000000)\<rparr> \<and>
        decodeGetTimeResponse (encodeSetTimeRequest \<lparr>millisSinceEpoch = Num q\<rparr>) =
          \<lparr>millisSinceEpoch = Num q\<rparr>)"
  by (simp add: encodeSetTimeRequest_def decodeGetTimeResponse_def js_mul_Num js_div_Num
      signed_zero_def)

theorem C5_time_unit_conversion_witness:
  "fl64 1730937600000 = Num 1730937600000 \<and>
   fl64 (1730937600000 * 1000000) = Num (1730937600000 * 1000000) \<and>
   encodeSetTimeRequest \<lparr>millisSinceEpoch = Num 1730937600000\<rparr> =
     \<lparr>nanos_since_epoch = Num (1730937600000 * 1000000)\<rparr> \<and>
   decodeGetTimeResponse (encodeSetTimeRequest \<lparr>millisSinceEpoch = Num 1730937600000\<rparr>) =
     \<lparr>millisSinceEpoch = Num 1730937600000\<rparr>"
proof -
  have d: "fl64 1730937600000 = Num 1730937600000"
    by code_simp
  have e: "fl64 (1730937600000 * 1000000) = Num (1730937600000 * 1000000)"
    by code_simp
  note r = C5_time_unit_conversion
    [of "Num 0" "Num 0" 1730937600000, THEN conjunct2, THEN conjunct2, THEN mp,
     OF conjI [OF d e]]
  show ?thesis
    by (intro conjI d e r [THEN conjunct1] r [THEN conjunct2])
qed


section \<open>Properties of the server process\<close>


















lemmas server_defs =
  run_def step_def stop_def newPromise_def on_exit_def on_error_def kill_def dispatch_def
  invoke_def resolve_def reject_def started_def

text \<open>
  An \<^verbatim>\<open>error\<close> event of the process first reaches the listener of \<^verbatim>\<open>start\<close>, which
  throws; the error listener of \<^verbatim>\<open>stop\<close> is registered after it and is not called.
\<close>

lemma stop_error_preempted:
  "promises (run (started False) [CallStop SignalSent, ProcessError e]) = [Pending]"
  "uncaught (run (started False) [CallStop SignalSent, ProcessError e]) = [BinStartError e]"
  by (simp_all add: server_defs)




end
